theory Spec2Isabelle
  imports Complex_Main "HOL-Library.Word"
begin

section \<open>Data model\<close>

text \<open>
  The repository is two Python scripts. \<^verbatim>\<open>ros2bag_to_dora.py\<close> holds
  \<^verbatim>\<open>parse_ros2_bag\<close> (locate the bag, print a summary, extract the topics
  \<^verbatim>\<open>/Imu\<close> and \<^verbatim>\<open>/odom\<close>) and the class \<^verbatim>\<open>DoraBagOperator\<close> whose
  \<^verbatim>\<open>on_event\<close> emits the extracted records; \<^verbatim>\<open>ros2bag_read.py\<close> holds the
  same locator and summary without the extraction.

  A Python \<^verbatim>\<open>float\<close> that is only copied is kept as its 64-bit pattern. A clock
  reading of \<^verbatim>\<open>time.time()\<close> and the interval \<^verbatim>\<open>1.0 / send_frequency\<close> are
  real numbers: the subtraction, the division and the comparison of
  \<^verbatim>\<open>on_event\<close> are taken exactly, without the rounding of binary floating point.
\<close>

type_synonym float64 = "64 word"

text \<open>Exceptions derived from \<^verbatim>\<open>Exception\<close>, the class the handler of
  \<^verbatim>\<open>parse_ros2_bag\<close> names.\<close>

datatype exc =
    ZeroDivisionError
  | AttributeError
  | KeyError string
  | OSError string
  | ReaderError string
  | DeserializeError string
  | ValueError string

record quaternion =
  qx :: float64
  qy :: float64
  qz :: float64
  qw :: float64

record vector3 =
  vx :: float64
  vy :: float64
  vz :: float64

text \<open>The dictionary appended to \<^verbatim>\<open>extracted_data["/Imu"]\<close>.\<close>

record imu_record =
  imu_timestamp :: int
  imu_orientation :: quaternion
  imu_angular_velocity :: vector3
  imu_linear_acceleration :: vector3

record pose_record =
  pose_position :: vector3
  pose_orientation :: quaternion

record twist_record =
  twist_linear :: vector3
  twist_angular :: vector3

text \<open>The dictionary appended to \<^verbatim>\<open>extracted_data["/odom"]\<close>; the covariance
  arrays are turned into lists.\<close>

record odom_record =
  odom_timestamp :: int
  odom_pose :: pose_record
  odom_pose_covariance :: "float64 list"
  odom_twist :: twist_record
  odom_twist_covariance :: "float64 list"

text \<open>\<^verbatim>\<open>extracted_data\<close>, a dictionary with exactly the keys \<^verbatim>\<open>"/Imu"\<close> and
  \<^verbatim>\<open>"/odom"\<close>.\<close>

record extracted_data =
  Imu :: "imu_record list"
  odom :: "odom_record list"

section \<open>The timed emitter: \<^verbatim>\<open>DoraBagOperator\<close>\<close>

datatype DoraStatus = CONTINUE | STOP

type_synonym metadata = "(string \<times> string) list"

record dora_event =
  ev_type :: string
  ev_metadata :: metadata

text \<open>The bytes handed to \<^verbatim>\<open>send_output\<close>: \<^verbatim>\<open>json.dumps(record).encode()\<close>.
  The text is produced by the \<^verbatim>\<open>json\<close> library; the model keeps the record it
  encodes.\<close>

datatype payload = JsonImu imu_record | JsonOdom odom_record

text \<open>What \<^verbatim>\<open>on_event\<close> does to the outside, in program order: a call of the
  \<^verbatim>\<open>send_output\<close> callback, or a \<^verbatim>\<open>print\<close>.\<close>

datatype op_line =
    FinishedSending
  | ReceivedStop
  | UnexpectedEvent string

datatype effect =
    SendOutput string payload metadata
  | Print op_line

record operator =
  all_data :: extracted_data
  imu_index :: nat
  odom_index :: nat
  last_send_time :: real
  send_frequency :: int

text \<open>\<^verbatim>\<open>__init__\<close>; the argument is the reading of \<^verbatim>\<open>time.time()\<close>.\<close>

definition init_operator :: "real \<Rightarrow> operator" where
  "init_operator now =
     \<lparr>all_data = \<lparr>Imu = [], odom = []\<rparr>, imu_index = 0, odom_index = 0,
      last_send_time = now, send_frequency = 10\<rparr>"

text \<open>Lines 183 to 191: send the next IMU record, if there is one.\<close>

definition send_imu :: "operator \<Rightarrow> dora_event \<Rightarrow> operator \<times> effect list" where
  "send_imu self ev =
     (if imu_index self < length (Imu (all_data self))
      then (self\<lparr>imu_index := imu_index self + 1\<rparr>,
            [SendOutput ''imu_json'' (JsonImu (Imu (all_data self) ! imu_index self))
               (ev_metadata ev)])
      else (self, []))"

text \<open>Lines 194 to 202: send the next odometry record, if there is one.\<close>

definition send_odom :: "operator \<Rightarrow> dora_event \<Rightarrow> operator \<times> effect list" where
  "send_odom self ev =
     (if odom_index self < length (odom (all_data self))
      then (self\<lparr>odom_index := odom_index self + 1\<rparr>,
            [SendOutput ''odom_json'' (JsonOdom (odom (all_data self) ! odom_index self))
               (ev_metadata ev)])
      else (self, []))"

text \<open>
  \<^verbatim>\<open>on_event\<close>. The third argument is what \<^verbatim>\<open>time.time()\<close> returns if the
  call reads the clock. The result is the operator after the call, the effects of the
  call in order, and the returned status or the exception the call raises
  (\<^verbatim>\<open>1.0 / self.send_frequency\<close> raises when the frequency is 0, before anything
  is changed).
\<close>

definition on_event ::
  "operator \<Rightarrow> dora_event \<Rightarrow> real \<Rightarrow> operator \<times> effect list \<times> (exc + DoraStatus)" where
  "on_event self ev current_time =
     (if ev_type ev = ''INPUT'' then (self, [], Inr CONTINUE)
      else if ev_type ev = ''TIMER_TICK'' then
        (if send_frequency self = 0 then (self, [], Inl ZeroDivisionError)
         else if current_time - last_send_time self \<ge> 1 / real_of_int (send_frequency self)
         then
           (let (s1, out1) = send_imu self ev;
                (s2, out2) = send_odom s1 ev;
                s3 = s2\<lparr>last_send_time := current_time\<rparr>
            in if imu_index s3 \<ge> length (Imu (all_data s3)) \<and>
                  odom_index s3 \<ge> length (odom (all_data s3))
               then (s3, out1 @ out2 @ [Print FinishedSending], Inr STOP)
               else (s3, out1 @ out2, Inr CONTINUE))
         else (self, [], Inr CONTINUE))
      else if ev_type ev = ''STOP'' then (self, [Print ReceivedStop], Inr CONTINUE)
      else (self, [Print (UnexpectedEvent (ev_type ev))], Inr CONTINUE))"

text \<open>A sequence of calls of \<^verbatim>\<open>on_event\<close> on one operator, each with its event
  and its clock reading. The result is the operator at the end and, per call, the
  effects and the outcome. A call that raises leaves the operator as it was, and the
  next event is still delivered.\<close>

fun run_events ::
  "operator \<Rightarrow> (dora_event \<times> real) list \<Rightarrow>
   operator \<times> (effect list \<times> (exc + DoraStatus)) list" where
  "run_events self [] = (self, [])"
| "run_events self ((ev, t) # rest) =
     (case on_event self ev t of
        (self', out, r) \<Rightarrow>
          (case run_events self' rest of (self'', outs) \<Rightarrow> (self'', (out, r) # outs)))"

definition is_send :: "string \<Rightarrow> effect \<Rightarrow> bool" where
  "is_send tag e = (case e of SendOutput tag' _ _ \<Rightarrow> tag' = tag | Print _ \<Rightarrow> False)"


definition tick :: "metadata \<Rightarrow> dora_event" where
  "tick md = \<lparr>ev_type = ''TIMER_TICK'', ev_metadata = md\<rparr>"

definition stop_signal :: "metadata \<Rightarrow> dora_event" where
  "stop_signal md = \<lparr>ev_type = ''STOP'', ev_metadata = md\<rparr>"





subsection \<open>A concrete emitter\<close>

definition sample_imu :: "int \<Rightarrow> imu_record" where
  "sample_imu n =
     \<lparr>imu_timestamp = n,
      imu_orientation = \<lparr>qx = 0, qy = 0, qz = 0, qw = 1\<rparr>,
      imu_angular_velocity = \<lparr>vx = 0, vy = 0, vz = 0\<rparr>,
      imu_linear_acceleration = \<lparr>vx = 0, vy = 0, vz = 0\<rparr>\<rparr>"

definition sample_odom :: "int \<Rightarrow> odom_record" where
  "sample_odom n =
     \<lparr>odom_timestamp = n,
      odom_pose = \<lparr>pose_position = \<lparr>vx = 0, vy = 0, vz = 0\<rparr>,
                   pose_orientation = \<lparr>qx = 0, qy = 0, qz = 0, qw = 1\<rparr>\<rparr>,
      odom_pose_covariance = [],
      odom_twist = \<lparr>twist_linear = \<lparr>vx = 0, vy = 0, vz = 0\<rparr>,
                    twist_angular = \<lparr>vx = 0, vy = 0, vz = 0\<rparr>\<rparr>,
      odom_twist_covariance = []\<rparr>"

text \<open>Frequency 10, three IMU records, one odometry record, nothing sent yet, the
  last emission at time 0.\<close>

definition scenario_operator :: operator where
  "scenario_operator =
     \<lparr>all_data = \<lparr>Imu = [sample_imu 1, sample_imu 2, sample_imu 3], odom = [sample_odom 1]\<rparr>,
      imu_index = 0, odom_index = 0, last_send_time = 0, send_frequency = 10\<rparr>"


section \<open>\<^verbatim>\<open>parse_ros2_bag\<close>: the outside world\<close>

text \<open>
  \<^verbatim>\<open>parse_ros2_bag\<close> reads the file system through \<^verbatim>\<open>os\<close> and \<^verbatim>\<open>os.path\<close>,
  opens the bag with \<^verbatim>\<open>rosbags.rosbag2.Reader\<close> and decodes payloads with
  \<^verbatim>\<open>rosbags.serde.deserialize_cdr\<close>. These libraries are not part of the repository:
  each of their operations is a field of the environment \<open>env\<close>, and an operation
  that can raise returns \<open>Inl\<close> of the exception.
\<close>

datatype node = File | Dir | Special

record connection =
  topic :: string
  msgtype :: string
  serialization_format :: string

type_synonym rawdata = "8 word list"

text \<open>The object \<^verbatim>\<open>deserialize_cdr\<close> returns, with the attributes the code reads. An
  \<^verbatim>\<open>sensor_msgs/Imu\<close> message has \<^verbatim>\<open>orientation\<close>, \<^verbatim>\<open>angular_velocity\<close> and
  \<^verbatim>\<open>linear_acceleration\<close>; a \<^verbatim>\<open>nav_msgs/Odometry\<close> message has \<^verbatim>\<open>pose\<close> and
  \<^verbatim>\<open>twist\<close>; a message of another type has none of the attributes the code reads
  first.\<close>

record imu_msg =
  msg_orientation :: quaternion
  msg_angular_velocity :: vector3
  msg_linear_acceleration :: vector3

record odom_msg =
  msg_pose :: pose_record
  msg_pose_covariance :: "float64 list"
  msg_twist :: twist_record
  msg_twist_covariance :: "float64 list"

datatype msg = ImuMsg imu_msg | OdometryMsg odom_msg | OtherMsg string

text \<open>\<^verbatim>\<open>reader.metadata\<close>, with the keys the code reads.\<close>

record bag_metadata =
  duration_nanoseconds :: int
  starting_time_nanoseconds_since_epoch :: int
  message_count :: int
  storage_identifier :: string
  topics_with_message_count :: "(string \<times> int) list"

text \<open>An open reader. \<open>messages\<close> is what \<^verbatim>\<open>reader.messages()\<close> yields, in storage
  order; \<open>messages_error\<close> is the exception the iterator raises after the last of
  them, if it raises.\<close>

record reader =
  reader_metadata :: bag_metadata
  connections :: "connection list"
  messages :: "(connection \<times> int \<times> rawdata) list"
  messages_error :: "exc option"

record env =
  path_kind :: "string \<Rightarrow> node option"
  listdir :: "string \<Rightarrow> exc + string list"
  walk_files :: "string \<Rightarrow> string list"
  getsize :: "string \<Rightarrow> exc + nat"
  open_reader :: "string \<Rightarrow> exc + reader"
  fromtimestamp :: "int \<Rightarrow> exc + string"
  deserialize_cdr :: "rawdata \<Rightarrow> string \<Rightarrow> exc + msg"

text \<open>
  \<open>path_kind\<close> is what \<^verbatim>\<open>os.stat\<close> finds at a path (\<open>None\<close>: nothing there),
  \<open>walk_files\<close> the joined paths \<^verbatim>\<open>os.path.join(dirpath, f)\<close> of all files under
  \<^verbatim>\<open>os.walk\<close>, \<open>fromtimestamp\<close> the rendering of
  \<^verbatim>\<open>datetime.fromtimestamp(ns / 1e9)\<close> as a function of the nanoseconds.
  The empty path names nothing: \<^verbatim>\<open>os.stat('')\<close> fails, so \<^verbatim>\<open>os.path.exists\<close>,
  \<^verbatim>\<open>isfile\<close> and \<^verbatim>\<open>isdir\<close> are all false on it.
\<close>

definition stat :: "env \<Rightarrow> string \<Rightarrow> node option" where
  "stat e p = (if p = [] then None else path_kind e p)"

definition os_path_exists :: "env \<Rightarrow> string \<Rightarrow> bool" where
  "os_path_exists e p = (stat e p \<noteq> None)"

definition os_path_isfile :: "env \<Rightarrow> string \<Rightarrow> bool" where
  "os_path_isfile e p = (stat e p = Some File)"

definition os_path_isdir :: "env \<Rightarrow> string \<Rightarrow> bool" where
  "os_path_isdir e p = (stat e p = Some Dir)"

text \<open>\<^verbatim>\<open>str.endswith\<close>.\<close>

definition endswith :: "string \<Rightarrow> string \<Rightarrow> bool" where
  "endswith s suf = (length suf \<le> length s \<and> drop (length s - length suf) s = suf)"

text \<open>\<^verbatim>\<open>posixpath.dirname\<close>: the part up to and including the last slash, with its
  trailing slashes removed unless it consists of slashes only.\<close>

definition os_path_dirname :: "string \<Rightarrow> string" where
  "os_path_dirname p =
     (let head = rev (dropWhile (\<lambda>c. c \<noteq> CHR ''/'') (rev p))
      in if head \<noteq> [] \<and> head \<noteq> replicate (length head) (CHR ''/'')
         then rev (dropWhile (\<lambda>c. c = CHR ''/'') (rev head))
         else head)"

text \<open>\<^verbatim>\<open>posixpath.basename\<close>: the part after the last slash.\<close>

definition os_path_basename :: "string \<Rightarrow> string" where
  "os_path_basename p = rev (takeWhile (\<lambda>c. c \<noteq> CHR ''/'') (rev p))"

section \<open>\<^verbatim>\<open>parse_ros2_bag\<close>\<close>

text \<open>\<^verbatim>\<open>bag_file_name\<close> is a string in the file branch and a list in the directory
  branch.\<close>

datatype files = OneFile string | FileList "string list"

text \<open>One constructor per \<^verbatim>\<open>print\<close> statement of \<^verbatim>\<open>parse_ros2_bag\<close>, with the
  values the statement formats. Sizes, durations and times are kept as the integers
  they are computed from.\<close>

datatype line =
    ErrNotExist string
  | WarnDb3 string
  | ErrNoDb3 string
  | ErrInvalidPath string
  | ErrNotBagDir string
  | ParsingFrom string
  | RepFiles files
  | RepBagSize nat
  | RepStorageId string
  | RepDuration int
  | RepStart string int
  | RepEnd string int
  | RepMessages int
  | RepTopicInformation
  | RepTopic string string int string
  | ExtractedImu nat
  | ExtractedOdom nat
  | ErrParsing exc

text \<open>
  Lines 18 to 41, the same in both scripts: from the path given to the bag directory.
  The result is the lines printed and then the exception raised (\<^verbatim>\<open>os.listdir\<close> is
  outside the \<^verbatim>\<open>try\<close>), or \<open>None\<close> for an early \<^verbatim>\<open>return\<close>, or the bag
  directory together with \<^verbatim>\<open>bag_file_name\<close>.
\<close>

definition locate_bag :: "env \<Rightarrow> string \<Rightarrow> line list \<times> (exc + (string \<times> files) option)" where
  "locate_bag e bag_path =
     (let original_bag_path = bag_path in
      if \<not> os_path_exists e bag_path then ([ErrNotExist bag_path], Inr None)
      else
        (case
           (if os_path_isfile e bag_path \<and> endswith bag_path ''.db3''
            then ([WarnDb3 (os_path_dirname bag_path)],
                  Inr (Some (os_path_dirname bag_path, OneFile (os_path_basename bag_path))))
            else if os_path_isdir e bag_path
            then (case listdir e bag_path of
                    Inl x \<Rightarrow> ([], Inl x)
                  | Inr entries \<Rightarrow>
                      (let db3_files = filter (\<lambda>f. endswith f ''.db3'') entries
                       in if db3_files = [] then ([ErrNoDb3 bag_path], Inr None)
                          else ([], Inr (Some (bag_path, FileList db3_files)))))
            else ([ErrInvalidPath original_bag_path], Inr None))
         of
           (out, Inr (Some (bag_path', bag_file_name))) \<Rightarrow>
             if \<not> os_path_isdir e bag_path'
             then (out @ [ErrNotBagDir bag_path'], Inr None)
             else (out, Inr (Some (bag_path', bag_file_name)))
         | other \<Rightarrow> other))"

text \<open>Lines 48 to 52: the sum of \<^verbatim>\<open>os.path.getsize\<close> over the walked files.\<close>

fun sum_sizes :: "env \<Rightarrow> string list \<Rightarrow> nat \<Rightarrow> exc + nat" where
  "sum_sizes e [] total_size = Inr total_size"
| "sum_sizes e (fp # rest) total_size =
     (case getsize e fp of
        Inl x \<Rightarrow> Inl x
      | Inr n \<Rightarrow> sum_sizes e rest (total_size + n))"

text \<open>Line 81: the dictionary comprehension; a later item with the same topic name
  replaces an earlier one.\<close>

definition topic_message_counts :: "bag_metadata \<Rightarrow> string \<Rightarrow> int option" where
  "topic_message_counts md = map_of (rev (topics_with_message_count md))"

text \<open>Line 86: \<^verbatim>\<open>topic_message_counts.get(topic_name, 0)\<close>, and the line printed for
  the connection.\<close>

definition topic_line :: "bag_metadata \<Rightarrow> connection \<Rightarrow> line" where
  "topic_line md c =
     RepTopic (topic c) (msgtype c)
       (case topic_message_counts md (topic c) of None \<Rightarrow> 0 | Some n \<Rightarrow> n)
       (serialization_format c)"

text \<open>
  Lines 47 to 87, the summary, the same in both scripts. Everything that can raise
  (the sizes, the two calls of \<^verbatim>\<open>datetime.fromtimestamp\<close>) comes before the first
  \<^verbatim>\<open>print\<close>.
\<close>

definition report :: "env \<Rightarrow> string \<Rightarrow> files \<Rightarrow> reader \<Rightarrow> line list \<times> (exc + unit)" where
  "report e bag_path bag_file_name rd =
     (case sum_sizes e (walk_files e bag_path) 0 of
        Inl x \<Rightarrow> ([], Inl x)
      | Inr total_size \<Rightarrow>
          (let metadata = reader_metadata rd;
               duration_ns = duration_nanoseconds metadata;
               start_time_ns = starting_time_nanoseconds_since_epoch metadata;
               end_time_ns = start_time_ns + duration_ns
           in case fromtimestamp e start_time_ns of
                Inl x \<Rightarrow> ([], Inl x)
              | Inr start_datetime \<Rightarrow>
                  (case fromtimestamp e end_time_ns of
                     Inl x \<Rightarrow> ([], Inl x)
                   | Inr end_datetime \<Rightarrow>
                       ([RepFiles bag_file_name,
                         RepBagSize total_size,
                         RepStorageId (storage_identifier metadata),
                         RepDuration duration_ns,
                         RepStart start_datetime start_time_ns,
                         RepEnd end_datetime end_time_ns,
                         RepMessages (message_count metadata),
                         RepTopicInformation]
                        @ map (topic_line metadata) (connections rd),
                        Inr ()))))"

text \<open>Lines 97 to 115: the dictionary built from an IMU message. Reading the
  attributes of a message of another type raises \<^verbatim>\<open>AttributeError\<close>.\<close>

definition reshape_imu :: "int \<Rightarrow> msg \<Rightarrow> exc + imu_record" where
  "reshape_imu timestamp m =
     (case m of
        ImuMsg i \<Rightarrow>
          Inr \<lparr>imu_timestamp = timestamp,
               imu_orientation = msg_orientation i,
               imu_angular_velocity = msg_angular_velocity i,
               imu_linear_acceleration = msg_linear_acceleration i\<rparr>
      | _ \<Rightarrow> Inl AttributeError)"

text \<open>Lines 118 to 151: the dictionary built from an odometry message.\<close>

definition reshape_odom :: "int \<Rightarrow> msg \<Rightarrow> exc + odom_record" where
  "reshape_odom timestamp m =
     (case m of
        OdometryMsg od \<Rightarrow>
          Inr \<lparr>odom_timestamp = timestamp,
               odom_pose = msg_pose od,
               odom_pose_covariance = msg_pose_covariance od,
               odom_twist = msg_twist od,
               odom_twist_covariance = msg_twist_covariance od\<rparr>
      | _ \<Rightarrow> Inl AttributeError)"

text \<open>Lines 95 to 151: the body of the loop over \<^verbatim>\<open>reader.messages()\<close>.\<close>

definition handle_message ::
  "env \<Rightarrow> extracted_data \<Rightarrow> connection \<times> int \<times> rawdata \<Rightarrow> exc + extracted_data" where
  "handle_message e extracted m =
     (case m of (connection, timestamp, raw) \<Rightarrow>
        if topic connection = ''/Imu'' then
          (case deserialize_cdr e raw (msgtype connection) of
             Inl x \<Rightarrow> Inl x
           | Inr ms \<Rightarrow>
               (case reshape_imu timestamp ms of
                  Inl x \<Rightarrow> Inl x
                | Inr r \<Rightarrow> Inr (extracted\<lparr>Imu := Imu extracted @ [r]\<rparr>)))
        else if topic connection = ''/odom'' then
          (case deserialize_cdr e raw (msgtype connection) of
             Inl x \<Rightarrow> Inl x
           | Inr ms \<Rightarrow>
               (case reshape_odom timestamp ms of
                  Inl x \<Rightarrow> Inl x
                | Inr r \<Rightarrow> Inr (extracted\<lparr>odom := odom extracted @ [r]\<rparr>)))
        else Inr extracted)"

text \<open>Line 94: the loop. The first exception ends it.\<close>

fun extract_messages ::
  "env \<Rightarrow> extracted_data \<Rightarrow> (connection \<times> int \<times> rawdata) list \<Rightarrow> exc + extracted_data" where
  "extract_messages e extracted [] = Inr extracted"
| "extract_messages e extracted (m # rest) =
     (case handle_message e extracted m of
        Inl x \<Rightarrow> Inl x
      | Inr extracted' \<Rightarrow> extract_messages e extracted' rest)"

text \<open>Lines 90 to 154: the extraction and the two lines printed after it.\<close>

definition extraction :: "env \<Rightarrow> reader \<Rightarrow> line list \<times> (exc + extracted_data)" where
  "extraction e rd =
     (case extract_messages e \<lparr>Imu = [], odom = []\<rparr> (messages rd) of
        Inl x \<Rightarrow> ([], Inl x)
      | Inr extracted \<Rightarrow>
          (case messages_error rd of
             Some x \<Rightarrow> ([], Inl x)
           | None \<Rightarrow>
               ([ExtractedImu (length (Imu extracted)),
                 ExtractedOdom (length (odom extracted))],
                Inr extracted)))"

text \<open>Lines 46 to 154 of \<^verbatim>\<open>ros2bag_to_dora.py\<close>: the body of the \<^verbatim>\<open>try\<close>.\<close>

definition reader_block ::
  "env \<Rightarrow> string \<Rightarrow> files \<Rightarrow> line list \<times> (exc + extracted_data)" where
  "reader_block e bag_path bag_file_name =
     (case open_reader e bag_path of
        Inl x \<Rightarrow> ([], Inl x)
      | Inr rd \<Rightarrow>
          (case report e bag_path bag_file_name rd of
             (out, Inl x) \<Rightarrow> (out, Inl x)
           | (out, Inr _) \<Rightarrow>
               (case extraction e rd of (out', r) \<Rightarrow> (out @ out', r))))"

text \<open>
  \<^verbatim>\<open>parse_ros2_bag\<close> of \<^verbatim>\<open>ros2bag_to_dora.py\<close>. The result is the lines printed,
  and then either the exception that leaves the function (\<open>Inl\<close>) or the value
  returned: \<open>None\<close>, or the extracted data.
\<close>

definition parse_ros2_bag ::
  "env \<Rightarrow> string \<Rightarrow> line list \<times> (exc + extracted_data option)" where
  "parse_ros2_bag e bag_path =
     (case locate_bag e bag_path of
        (out, Inl x) \<Rightarrow> (out, Inl x)
      | (out, Inr None) \<Rightarrow> (out, Inr None)
      | (out, Inr (Some (bag_dir, bag_file_name))) \<Rightarrow>
          (case reader_block e bag_dir bag_file_name of
             (out', Inr extracted) \<Rightarrow>
               (out @ [ParsingFrom bag_dir] @ out', Inr (Some extracted))
           | (out', Inl x) \<Rightarrow>
               (out @ [ParsingFrom bag_dir] @ out' @ [ErrParsing x], Inr None)))"

text \<open>\<^verbatim>\<open>parse_ros2_bag\<close> of \<^verbatim>\<open>ros2bag_read.py\<close>: the same without the extraction;
  every path returns \<open>None\<close>.\<close>

definition parse_ros2_bag_read :: "env \<Rightarrow> string \<Rightarrow> line list \<times> (exc + unit)" where
  "parse_ros2_bag_read e bag_path =
     (case locate_bag e bag_path of
        (out, Inl x) \<Rightarrow> (out, Inl x)
      | (out, Inr None) \<Rightarrow> (out, Inr ())
      | (out, Inr (Some (bag_dir, bag_file_name))) \<Rightarrow>
          (case open_reader e bag_dir of
             Inl x \<Rightarrow> (out @ [ParsingFrom bag_dir, ErrParsing x], Inr ())
           | Inr rd \<Rightarrow>
               (case report e bag_dir bag_file_name rd of
                  (out', Inr _) \<Rightarrow> (out @ [ParsingFrom bag_dir] @ out', Inr ())
                | (out', Inl x) \<Rightarrow>
                    (out @ [ParsingFrom bag_dir] @ out' @ [ErrParsing x], Inr ()))))"

definition is_error_line :: "line \<Rightarrow> bool" where
  "is_error_line l = (case l of ErrParsing _ \<Rightarrow> True | _ \<Rightarrow> False)"




subsection \<open>A concrete bag\<close>

definition imu_conn :: connection where
  "imu_conn = \<lparr>topic = ''/Imu'', msgtype = ''sensor_msgs/msg/Imu'', serialization_format = ''cdr''\<rparr>"

definition odom_conn :: connection where
  "odom_conn =
     \<lparr>topic = ''/odom'', msgtype = ''nav_msgs/msg/Odometry'', serialization_format = ''cdr''\<rparr>"

definition scan_conn :: connection where
  "scan_conn =
     \<lparr>topic = ''/scan'', msgtype = ''sensor_msgs/msg/LaserScan'', serialization_format = ''cdr''\<rparr>"

definition sample_imu_msg :: imu_msg where
  "sample_imu_msg =
     \<lparr>msg_orientation = \<lparr>qx = 0, qy = 0, qz = 0, qw = 1\<rparr>,
      msg_angular_velocity = \<lparr>vx = 0, vy = 0, vz = 0\<rparr>,
      msg_linear_acceleration = \<lparr>vx = 0, vy = 0, vz = 0\<rparr>\<rparr>"

definition sample_odom_msg :: odom_msg where
  "sample_odom_msg =
     \<lparr>msg_pose = \<lparr>pose_position = \<lparr>vx = 0, vy = 0, vz = 0\<rparr>,
                  pose_orientation = \<lparr>qx = 0, qy = 0, qz = 0, qw = 1\<rparr>\<rparr>,
      msg_pose_covariance = [],
      msg_twist = \<lparr>twist_linear = \<lparr>vx = 0, vy = 0, vz = 0\<rparr>,
                   twist_angular = \<lparr>vx = 0, vy = 0, vz = 0\<rparr>\<rparr>,
      msg_twist_covariance = []\<rparr>"

text \<open>A decoder that fails on an empty payload and otherwise returns a message of the
  declared type.\<close>

definition sample_deserialize :: "rawdata \<Rightarrow> string \<Rightarrow> exc + msg" where
  "sample_deserialize raw ty =
     (if raw = [] then Inl (DeserializeError ''truncated'')
      else if ty = ''sensor_msgs/msg/Imu'' then Inr (ImuMsg sample_imu_msg)
      else if ty = ''nav_msgs/msg/Odometry'' then Inr (OdometryMsg sample_odom_msg)
      else Inr (OtherMsg ty))"

definition sample_metadata :: bag_metadata where
  "sample_metadata =
     \<lparr>duration_nanoseconds = 2500000000,
      starting_time_nanoseconds_since_epoch = 1700000000000000000,
      message_count = 3,
      storage_identifier = ''sqlite3'',
      topics_with_message_count = [(''/Imu'', 2), (''/odom'', 1)]\<rparr>"

definition sample_reader :: "(connection \<times> int \<times> rawdata) list \<Rightarrow> reader" where
  "sample_reader msgs =
     \<lparr>reader_metadata = sample_metadata,
      connections = [imu_conn, odom_conn, scan_conn],
      messages = msgs,
      messages_error = None\<rparr>"

text \<open>A file system with the bag directory \<^verbatim>\<open>bag\<close> (holding \<^verbatim>\<open>data.db3\<close> and
  \<^verbatim>\<open>metadata.yaml\<close>), the directory \<^verbatim>\<open>foo\<close> holding \<^verbatim>\<open>bar.db3\<close>, the empty
  directory \<^verbatim>\<open>empty\<close>, and the files \<^verbatim>\<open>bar.db3\<close> and \<^verbatim>\<open>notes.txt\<close> in the
  working directory; every bag directory opens to the reader with the given
  messages.\<close>

definition sample_env :: "(connection \<times> int \<times> rawdata) list \<Rightarrow> env" where
  "sample_env msgs =
     \<lparr>path_kind = (\<lambda>p. if p = ''bag'' \<or> p = ''foo'' \<or> p = ''empty'' then Some Dir
                        else if p = ''bag/data.db3'' \<or> p = ''foo/bar.db3'' \<or> p = ''bar.db3''
                                \<or> p = ''notes.txt'' then Some File
                        else None),
      listdir = (\<lambda>p. if p = ''bag'' then Inr [''data.db3'', ''metadata.yaml'']
                      else if p = ''foo'' then Inr [''bar.db3'']
                      else if p = ''empty'' then Inr []
                      else Inl (OSError ''not a directory'')),
      walk_files = (\<lambda>p. if p = ''bag'' then [''bag/data.db3'', ''bag/metadata.yaml'']
                         else if p = ''foo'' then [''foo/bar.db3'']
                         else []),
      getsize = (\<lambda>p. Inr 1024),
      open_reader = (\<lambda>p. Inr (sample_reader msgs)),
      fromtimestamp = (\<lambda>n. Inr ''local time''),
      deserialize_cdr = sample_deserialize\<rparr>"

text \<open>An IMU message, an IMU message that does not decode, an odometry message.\<close>

definition corrupt_messages :: "(connection \<times> int \<times> rawdata) list" where
  "corrupt_messages = [(imu_conn, 1, [1]), (imu_conn, 2, []), (odom_conn, 3, [1])]"


definition is_end_line :: "line \<Rightarrow> bool" where
  "is_end_line l = (case l of RepEnd _ _ \<Rightarrow> True | _ \<Rightarrow> False)"

section \<open>Properties of the timed emitter\<close>

subsection \<open>What one call of \<^verbatim>\<open>on_event\<close> changes\<close>

lemma all_data_on_event: "all_data (fst (on_event self ev t)) = all_data self"
  by (simp add: on_event_def send_imu_def send_odom_def Let_def split: prod.splits)


lemma imu_index_on_event:
  "imu_index self \<le> imu_index (fst (on_event self ev t)) \<and>
   imu_index (fst (on_event self ev t)) \<le> imu_index self + 1"
  by (simp add: on_event_def send_imu_def send_odom_def Let_def)

lemma odom_index_on_event:
  "odom_index self \<le> odom_index (fst (on_event self ev t)) \<and>
   odom_index (fst (on_event self ev t)) \<le> odom_index self + 1"
  by (simp add: on_event_def send_imu_def send_odom_def Let_def)

lemma imu_sends_on_event:
  "length (filter (is_send ''imu_json'') (fst (snd (on_event self ev t)))) \<le> 1"
  by (simp add: on_event_def send_imu_def send_odom_def Let_def is_send_def)

lemma odom_sends_on_event:
  "length (filter (is_send ''odom_json'') (fst (snd (on_event self ev t)))) \<le> 1"
  by (simp add: on_event_def send_imu_def send_odom_def Let_def is_send_def)







lemma stop_event:
  assumes "ev_type ev = ''STOP''"
  shows "on_event self ev t = (self, [Print ReceivedStop], Inr CONTINUE)"
  using assms by (simp add: on_event_def)

subsection \<open>Runs\<close>

lemma fst_run_events_Cons:
  "fst (run_events self ((ev, t) # rest)) = fst (run_events (fst (on_event self ev t)) rest)"
  by (simp split: prod.splits)

lemma run_events_append:
  "fst (run_events self (xs @ ys)) = fst (run_events (fst (run_events self xs)) ys)"
proof (induction xs arbitrary: self)
  case Nil
  show ?case by simp
next
  case (Cons e xs)
  obtain ev t where e: "e = (ev, t)" by (cases e)
  have "fst (run_events self ((e # xs) @ ys)) =
        fst (run_events (fst (on_event self ev t)) (xs @ ys))"
    unfolding e append_Cons by (rule fst_run_events_Cons)
  also have "\<dots> = fst (run_events (fst (run_events (fst (on_event self ev t)) xs)) ys)"
    by (rule Cons.IH)
  also have "fst (run_events (fst (on_event self ev t)) xs) = fst (run_events self (e # xs))"
    unfolding e by (rule fst_run_events_Cons [symmetric])
  finally show ?case .
qed

lemma imu_index_run: "imu_index self \<le> imu_index (fst (run_events self evs))"
proof (induction evs arbitrary: self)
  case Nil
  show ?case by simp
next
  case (Cons e evs)
  obtain ev t where e: "e = (ev, t)" by (cases e)
  have "imu_index self \<le> imu_index (fst (on_event self ev t))"
    using imu_index_on_event by blast
  also have "\<dots> \<le> imu_index (fst (run_events (fst (on_event self ev t)) evs))"
    by (rule Cons.IH)
  finally show ?case unfolding e fst_run_events_Cons .
qed

lemma odom_index_run: "odom_index self \<le> odom_index (fst (run_events self evs))"
proof (induction evs arbitrary: self)
  case Nil
  show ?case by simp
next
  case (Cons e evs)
  obtain ev t where e: "e = (ev, t)" by (cases e)
  have "odom_index self \<le> odom_index (fst (on_event self ev t))"
    using odom_index_on_event by blast
  also have "\<dots> \<le> odom_index (fst (run_events (fst (on_event self ev t)) evs))"
    by (rule Cons.IH)
  finally show ?case unfolding e fst_run_events_Cons .
qed








subsection \<open>The claims about the emitter\<close>




text \<open>
  C2, as amended. On an event of type \<^verbatim>\<open>"STOP"\<close>, in every operator state,
  \<^verbatim>\<open>on_event\<close> prints \<^verbatim>\<open>received stop\<close>, calls \<^verbatim>\<open>send_output\<close> not at all,
  leaves the operator unchanged and returns \<^verbatim>\<open>DoraStatus.CONTINUE\<close>. The operator
  keeps no trace of the signal: the events after it are handled as if it had not come.
\<close>

theorem stop_signal_logged_operator_unchanged:
  assumes "ev_type ev = ''STOP''"
  shows "on_event self ev t = (self, [Print ReceivedStop], Inr CONTINUE) \<and>
         run_events self ((ev, t) # evs) =
           (fst (run_events self evs),
            ([Print ReceivedStop], Inr CONTINUE) # snd (run_events self evs))"
  using assms by (simp add: stop_event split: prod.splits)

theorem stop_signal_logged_operator_unchanged_witness:
  "on_event scenario_operator (stop_signal []) (1 / 10) =
     (scenario_operator, [Print ReceivedStop], Inr CONTINUE) \<and>
   run_events scenario_operator [(stop_signal [], 1 / 10)] =
     (scenario_operator, [([Print ReceivedStop], Inr CONTINUE)])"
  using stop_signal_logged_operator_unchanged [of "stop_signal []" scenario_operator "1 / 10" "[]"]
  by (simp add: stop_signal_def)

text \<open>
  C2 as stated fails: a tick that comes after the stop signal still emits, and the call
  that received the signal returned \<^verbatim>\<open>CONTINUE\<close>.
\<close>

theorem emission_after_stop_signal_counterexample:
  "run_events scenario_operator [(stop_signal [], 1 / 10), (tick [], 2 / 10)] =
     (scenario_operator\<lparr>imu_index := 1, odom_index := 1, last_send_time := 2 / 10\<rparr>,
      [([Print ReceivedStop], Inr CONTINUE),
       ([SendOutput ''imu_json'' (JsonImu (sample_imu 1)) [],
         SendOutput ''odom_json'' (JsonOdom (sample_odom 1)) []], Inr CONTINUE)])"
  by (simp add: on_event_def stop_signal_def tick_def scenario_operator_def
      send_imu_def send_odom_def Let_def)

text \<open>
  C6. For every operator, event and clock reading, one call of \<^verbatim>\<open>on_event\<close>
  leaves \<^verbatim>\<open>imu_index\<close> and \<^verbatim>\<open>odom_index\<close> as they were or raises them by exactly
  one, and calls \<^verbatim>\<open>send_output\<close> at most once with \<^verbatim>\<open>"imu_json"\<close> and at most once
  with \<^verbatim>\<open>"odom_json"\<close>. Along any sequence of events the indices never decrease: what
  they are after a prefix of the sequence is at most what they are after the whole.
\<close>

theorem indices_monotone_one_send_per_topic:
  "imu_index self \<le> imu_index (fst (on_event self ev t)) \<and>
   imu_index (fst (on_event self ev t)) \<le> imu_index self + 1 \<and>
   odom_index self \<le> odom_index (fst (on_event self ev t)) \<and>
   odom_index (fst (on_event self ev t)) \<le> odom_index self + 1 \<and>
   length (filter (is_send ''imu_json'') (fst (snd (on_event self ev t)))) \<le> 1 \<and>
   length (filter (is_send ''odom_json'') (fst (snd (on_event self ev t)))) \<le> 1 \<and>
   imu_index (fst (run_events self xs)) \<le> imu_index (fst (run_events self (xs @ ys))) \<and>
   odom_index (fst (run_events self xs)) \<le> odom_index (fst (run_events self (xs @ ys)))"
proof -
  have "imu_index (fst (run_events self xs)) \<le> imu_index (fst (run_events self (xs @ ys)))"
    by (simp add: run_events_append imu_index_run)
  moreover
  have "odom_index (fst (run_events self xs)) \<le> odom_index (fst (run_events self (xs @ ys)))"
    by (simp add: run_events_append odom_index_run)
  ultimately show ?thesis
    using imu_index_on_event [of self ev t] odom_index_on_event [of self ev t]
      imu_sends_on_event [of self ev t] odom_sends_on_event [of self ev t]
    by blast
qed



section \<open>Properties of the locator\<close>

lemma dirname_no_slash: "CHR ''/'' \<notin> set p \<Longrightarrow> os_path_dirname p = []"
proof -
  assume "CHR ''/'' \<notin> set p"
  then have "\<forall>c \<in> set (rev p). c \<noteq> CHR ''/''" by auto
  then have "dropWhile (\<lambda>c. c \<noteq> CHR ''/'') (rev p) = []" by simp
  then show ?thesis by (simp add: os_path_dirname_def)
qed

lemma isdir_empty: "\<not> os_path_isdir e []"
  by (simp add: os_path_isdir_def stat_def)

lemma isfile_exists: "os_path_isfile e p \<Longrightarrow> os_path_exists e p"
  by (simp add: os_path_isfile_def os_path_exists_def)

lemma isdir_exists: "os_path_isdir e p \<Longrightarrow> os_path_exists e p"
  by (simp add: os_path_isdir_def os_path_exists_def)

lemma isdir_not_isfile: "os_path_isdir e p \<Longrightarrow> \<not> os_path_isfile e p"
  by (simp add: os_path_isdir_def os_path_isfile_def)

lemma locate_not_found:
  "\<not> os_path_exists e p \<Longrightarrow> locate_bag e p = ([ErrNotExist p], Inr None)"
  by (simp add: locate_bag_def)

lemma locate_db3_file:
  assumes "os_path_isfile e p" and "endswith p ''.db3''"
  shows "locate_bag e p =
     (if os_path_isdir e (os_path_dirname p)
      then ([WarnDb3 (os_path_dirname p)],
            Inr (Some (os_path_dirname p, OneFile (os_path_basename p))))
      else ([WarnDb3 (os_path_dirname p), ErrNotBagDir (os_path_dirname p)], Inr None))"
  using assms isfile_exists [OF assms(1)] by (simp add: locate_bag_def)

lemma locate_directory:
  assumes "os_path_isdir e p" and "listdir e p = Inr entries"
  shows "locate_bag e p =
     (if filter (\<lambda>f. endswith f ''.db3'') entries = [] then ([ErrNoDb3 p], Inr None)
      else ([], Inr (Some (p, FileList (filter (\<lambda>f. endswith f ''.db3'') entries)))))"
  using assms isdir_exists [OF assms(1)] isdir_not_isfile [OF assms(1)]
  by (simp add: locate_bag_def Let_def)

lemma locate_invalid:
  assumes "os_path_exists e p" and "\<not> (os_path_isfile e p \<and> endswith p ''.db3'')"
    and "\<not> os_path_isdir e p"
  shows "locate_bag e p = ([ErrInvalidPath p], Inr None)"
  using assms by (auto simp add: locate_bag_def)

lemma parse_of_locate_None:
  "locate_bag e p = (out, Inr None) \<Longrightarrow>
   parse_ros2_bag e p = (out, Inr None) \<and> parse_ros2_bag_read e p = (out, Inr ())"
  by (simp add: parse_ros2_bag_def parse_ros2_bag_read_def)

lemma dirname_foo_bar: "os_path_dirname ''foo/bar.db3'' = ''foo''"
  by (simp add: os_path_dirname_def)

lemma basename_foo_bar: "os_path_basename ''foo/bar.db3'' = ''bar.db3''"
  by (simp add: os_path_basename_def)

lemma endswith_foo_bar: "endswith ''foo/bar.db3'' ''.db3''"
  by (simp add: endswith_def)

text \<open>What the locator prints when it resolves: nothing, or the warning.\<close>

lemma locate_Some_out:
  assumes "locate_bag e p = (out, Inr (Some (d, fs)))"
  shows "(out = [] \<or> out = [WarnDb3 d]) \<and> os_path_isdir e d"
  using assms
  by (auto simp add: locate_bag_def Let_def split: if_splits sum.splits)

section \<open>Properties of the reader block\<close>

lemma report_lines:
  assumes "report e d fs rd = (out, r)"
  shows "out = [] \<or>
         (\<exists>n dt dt'. out =
            [RepFiles fs, RepBagSize n, RepStorageId (storage_identifier (reader_metadata rd)),
             RepDuration (duration_nanoseconds (reader_metadata rd)),
             RepStart dt (starting_time_nanoseconds_since_epoch (reader_metadata rd)),
             RepEnd dt' (starting_time_nanoseconds_since_epoch (reader_metadata rd) +
                         duration_nanoseconds (reader_metadata rd)),
             RepMessages (message_count (reader_metadata rd)),
             RepTopicInformation]
            @ map (topic_line (reader_metadata rd)) (connections rd) \<and> r = Inr ())"
  using assms by (auto simp add: report_def Let_def split: sum.splits)

lemma report_Inl_out: "report e d fs rd = (out, Inl x) \<Longrightarrow> out = []"
  by (auto simp add: report_def Let_def split: sum.splits)

lemma topic_line_not_error: "filter is_error_line (map (topic_line md) cs) = []"
  by (induction cs) (simp_all add: topic_line_def is_error_line_def)

lemma topic_line_not_end: "filter is_end_line (map (topic_line md) cs) = []"
  by (induction cs) (simp_all add: topic_line_def is_end_line_def)

lemma report_no_error_line: "report e d fs rd = (out, r) \<Longrightarrow> filter is_error_line out = []"
  using report_lines [of e d fs rd out r]
  by (auto simp add: is_error_line_def topic_line_not_error)

lemma extraction_no_error_line: "extraction e rd = (out, r) \<Longrightarrow> filter is_error_line out = []"
  by (auto simp add: extraction_def is_error_line_def split: sum.splits option.splits)

lemma extraction_no_end_line: "extraction e rd = (out, r) \<Longrightarrow> filter is_end_line out = []"
  by (auto simp add: extraction_def is_end_line_def split: sum.splits option.splits)

lemma reader_block_no_error_line:
  assumes "reader_block e d fs = (out, r)"
  shows "filter is_error_line out = []"
proof (cases "open_reader e d")
  case (Inl x)
  with assms show ?thesis by (simp add: reader_block_def)
next
  case (Inr rd)
  obtain o1 r1 where rep: "report e d fs rd = (o1, r1)" by (cases "report e d fs rd")
  obtain o2 r2 where ext: "extraction e rd = (o2, r2)" by (cases "extraction e rd")
  from assms Inr rep ext have "out = o1 \<or> out = o1 @ o2"
    by (auto simp add: reader_block_def split: sum.splits)
  with report_no_error_line [OF rep] extraction_no_error_line [OF ext]
  show ?thesis by auto
qed

lemma locate_no_error_line:
  "locate_bag e p = (out, Inr (Some (d, fs))) \<Longrightarrow> filter is_error_line out = []"
  using locate_Some_out [of e p out d fs] by (auto simp add: is_error_line_def)

lemma parse_catches:
  assumes "locate_bag e p = (out, Inr (Some (d, fs)))"
    and "reader_block e d fs = (out', Inl x)"
  shows "parse_ros2_bag e p = (out @ [ParsingFrom d] @ out' @ [ErrParsing x], Inr None)"
  using assms by (simp add: parse_ros2_bag_def)

lemma parse_returns:
  assumes "locate_bag e p = (out, Inr (Some (d, fs)))"
  shows "\<exists>r. snd (parse_ros2_bag e p) = Inr r"
  using assms by (cases "reader_block e d fs") (auto simp add: parse_ros2_bag_def split: sum.splits)

section \<open>Properties of the extraction\<close>





section \<open>Evaluation on the concrete bag\<close>

lemma sample_kind:
  "os_path_isdir (sample_env msgs) ''bag''"
  "os_path_isdir (sample_env msgs) ''foo''"
  "os_path_isdir (sample_env msgs) ''empty''"
  "os_path_isfile (sample_env msgs) ''foo/bar.db3''"
  "os_path_isfile (sample_env msgs) ''bar.db3''"
  "os_path_isfile (sample_env msgs) ''notes.txt''"
  "os_path_exists (sample_env msgs) ''notes.txt''"
  "\<not> os_path_isdir (sample_env msgs) ''notes.txt''"
  "\<not> os_path_exists (sample_env msgs) ''missing''"
  by (simp_all add: sample_env_def os_path_isdir_def os_path_isfile_def os_path_exists_def
      stat_def)

lemma sample_listdir:
  "listdir (sample_env msgs) ''bag'' = Inr [''data.db3'', ''metadata.yaml'']"
  "listdir (sample_env msgs) ''empty'' = Inr []"
  by (simp_all add: sample_env_def)

lemma sample_locate_bag:
  "locate_bag (sample_env msgs) ''bag'' = ([], Inr (Some (''bag'', FileList [''data.db3''])))"
  by (simp add: locate_directory [OF sample_kind(1) sample_listdir(1)] endswith_def)

lemma sample_open: "open_reader (sample_env msgs) d = Inr (sample_reader msgs)"
  by (simp add: sample_env_def)

lemma sample_report:
  "report (sample_env msgs) ''bag'' fs (sample_reader msgs) =
     ([RepFiles fs, RepBagSize 2048, RepStorageId ''sqlite3'', RepDuration 2500000000,
       RepStart ''local time'' 1700000000000000000,
       RepEnd ''local time'' 1700000002500000000,
       RepMessages 3, RepTopicInformation,
       RepTopic ''/Imu'' ''sensor_msgs/msg/Imu'' 2 ''cdr'',
       RepTopic ''/odom'' ''nav_msgs/msg/Odometry'' 1 ''cdr'',
       RepTopic ''/scan'' ''sensor_msgs/msg/LaserScan'' 0 ''cdr''], Inr ())"
  by (simp add: report_def sample_env_def sample_reader_def sample_metadata_def Let_def
      topic_line_def topic_message_counts_def imu_conn_def odom_conn_def scan_conn_def)

lemma sample_corrupt_extraction:
  "extraction (sample_env corrupt_messages) (sample_reader corrupt_messages) =
     ([], Inl (DeserializeError ''truncated''))"
  by (simp add: extraction_def sample_reader_def corrupt_messages_def handle_message_def
      sample_env_def sample_deserialize_def imu_conn_def odom_conn_def reshape_imu_def)

lemma sample_corrupt_reader_block:
  "reader_block (sample_env corrupt_messages) ''bag'' fs =
     (fst (report (sample_env corrupt_messages) ''bag'' fs (sample_reader corrupt_messages)),
      Inl (DeserializeError ''truncated''))"
  by (simp add: reader_block_def sample_open sample_report sample_corrupt_extraction)


section \<open>General facts for the claims\<close>


lemma end_line_of_locate:
  "locate_bag e p = (out, Inr (Some (d, fs))) \<Longrightarrow> filter is_end_line out = []"
  using locate_Some_out [of e p out d fs] by (auto simp add: is_end_line_def)

lemma report_end_line:
  assumes "snd (report e d fs rd) = Inr ()"
  shows "\<exists>dt. fromtimestamp e (starting_time_nanoseconds_since_epoch (reader_metadata rd) +
                 duration_nanoseconds (reader_metadata rd)) = Inr dt \<and>
              filter is_end_line (fst (report e d fs rd)) =
                [RepEnd dt (starting_time_nanoseconds_since_epoch (reader_metadata rd) +
                   duration_nanoseconds (reader_metadata rd))]"
proof -
  have c: "is_end_line (RepEnd dt n)" "\<not> is_end_line (RepFiles fs)"
    "\<not> is_end_line (RepBagSize k)" "\<not> is_end_line (RepStorageId sid)"
    "\<not> is_end_line (RepDuration n)" "\<not> is_end_line (RepStart dt n)"
    "\<not> is_end_line (RepMessages n)" "\<not> is_end_line RepTopicInformation"
    for dt n k sid
    by (simp_all add: is_end_line_def)
  from assms show ?thesis
    by (auto simp add: report_def Let_def c topic_line_not_end split: sum.splits)
qed

lemma parse_end_lines:
  assumes "locate_bag e p = (out, Inr (Some (d, fs)))" and "open_reader e d = Inr rd"
    and "snd (report e d fs rd) = Inr ()"
  shows "filter is_end_line (fst (parse_ros2_bag e p)) =
           filter is_end_line (fst (report e d fs rd))"
    and "filter is_end_line (fst (parse_ros2_bag_read e p)) =
           filter is_end_line (fst (report e d fs rd))"
proof -
  obtain o1 where rep: "report e d fs rd = (o1, Inr ())"
    using assms(3) by (cases "report e d fs rd") auto
  obtain o2 r2 where ext: "extraction e rd = (o2, r2)" by (cases "extraction e rd")
  have rb: "reader_block e d fs = (o1 @ o2, r2)"
    using assms(2) rep ext by (simp add: reader_block_def)
  have l: "filter is_end_line out = []" by (rule end_line_of_locate [OF assms(1)])
  have x: "filter is_end_line o2 = []" by (rule extraction_no_end_line [OF ext])
  show "filter is_end_line (fst (parse_ros2_bag e p)) =
           filter is_end_line (fst (report e d fs rd))"
    using assms(1) rb l x rep
    by (cases r2) (simp_all add: parse_ros2_bag_def is_end_line_def)
  show "filter is_end_line (fst (parse_ros2_bag_read e p)) =
           filter is_end_line (fst (report e d fs rd))"
    using assms(1,2) rep l
    by (simp add: parse_ros2_bag_read_def is_end_line_def)
qed




lemma parse_bare_name:
  assumes "os_path_isfile e p" and "endswith p ''.db3''" and "CHR ''/'' \<notin> set p"
  shows "os_path_dirname p = [] \<and> \<not> os_path_isdir e (os_path_dirname p) \<and>
         parse_ros2_bag e p = ([WarnDb3 [], ErrNotBagDir []], Inr None)"
proof -
  have d: "os_path_dirname p = []" by (rule dirname_no_slash [OF assms(3)])
  have l: "locate_bag e p = ([WarnDb3 [], ErrNotBagDir []], Inr None)"
    using locate_db3_file [OF assms(1,2)] by (simp add: d isdir_empty)
  from d l parse_of_locate_None [OF l] show ?thesis by (simp add: isdir_empty)
qed

section \<open>The claims about \<^verbatim>\<open>parse_ros2_bag\<close>\<close>






text \<open>
  C5. When the path resolves to a bag directory, \<^verbatim>\<open>parse_ros2_bag\<close> returns a
  value, whatever the block under \<^verbatim>\<open>try\<close> does; and when that block raises,
  the function prints what the block printed, then the error, which is the only error
  line of the output, and returns \<^verbatim>\<open>None\<close>.
\<close>

theorem reader_exceptions_caught:
  assumes "locate_bag e p = (out, Inr (Some (d, fs)))"
  shows "(\<exists>r. snd (parse_ros2_bag e p) = Inr r) \<and>
         (reader_block e d fs = (out', Inl x) \<longrightarrow>
            parse_ros2_bag e p = (out @ [ParsingFrom d] @ out' @ [ErrParsing x], Inr None) \<and>
            filter is_error_line (fst (parse_ros2_bag e p)) = [ErrParsing x])"
proof -
  have "parse_ros2_bag e p = (out @ [ParsingFrom d] @ out' @ [ErrParsing x], Inr None) \<and>
        filter is_error_line (fst (parse_ros2_bag e p)) = [ErrParsing x]"
    if rb: "reader_block e d fs = (out', Inl x)"
  proof -
    have a: "filter is_error_line out = []" by (rule locate_no_error_line [OF assms])
    have b: "filter is_error_line out' = []" by (rule reader_block_no_error_line [OF rb])
    have c: "is_error_line (ErrParsing x)" "\<not> is_error_line (ParsingFrom d)"
      by (simp_all add: is_error_line_def)
    from parse_catches [OF assms rb] a b c show ?thesis by simp
  qed
  with parse_returns [OF assms] show ?thesis by blast
qed

theorem reader_exceptions_caught_witness:
  "(\<exists>r. snd (parse_ros2_bag (sample_env corrupt_messages) ''bag'') = Inr r) \<and>
   snd (parse_ros2_bag (sample_env corrupt_messages) ''bag'') = Inr None \<and>
   filter is_error_line (fst (parse_ros2_bag (sample_env corrupt_messages) ''bag'')) =
     [ErrParsing (DeserializeError ''truncated'')]"
proof -
  let ?out = "fst (report (sample_env corrupt_messages) ''bag'' (FileList [''data.db3''])
         (sample_reader corrupt_messages))"
  have l: "locate_bag (sample_env corrupt_messages) ''bag'' =
      ([], Inr (Some (''bag'', FileList [''data.db3''])))"
    by (rule sample_locate_bag)
  have rb: "reader_block (sample_env corrupt_messages) ''bag'' (FileList [''data.db3'']) =
      (?out, Inl (DeserializeError ''truncated''))"
    by (rule sample_corrupt_reader_block)
  from reader_exceptions_caught [OF l, of ?out "DeserializeError ''truncated''"] rb
  have a: "\<exists>r. snd (parse_ros2_bag (sample_env corrupt_messages) ''bag'') = Inr r"
    and b: "parse_ros2_bag (sample_env corrupt_messages) ''bag'' =
      ([] @ [ParsingFrom ''bag''] @ ?out @ [ErrParsing (DeserializeError ''truncated'')], Inr None)"
    and c: "filter is_error_line (fst (parse_ros2_bag (sample_env corrupt_messages) ''bag'')) =
      [ErrParsing (DeserializeError ''truncated'')]"
    by blast+
  have "snd (parse_ros2_bag (sample_env corrupt_messages) ''bag'') = Inr None"
    unfolding b by simp
  with a c show ?thesis by blast
qed

lemma sample_parse_bag_empty:
  "parse_ros2_bag (sample_env []) ''bag'' =
     ([ParsingFrom ''bag'', RepFiles (FileList [''data.db3'']), RepBagSize 2048,
       RepStorageId ''sqlite3'', RepDuration 2500000000,
       RepStart ''local time'' 1700000000000000000,
       RepEnd ''local time'' 1700000002500000000,
       RepMessages 3, RepTopicInformation,
       RepTopic ''/Imu'' ''sensor_msgs/msg/Imu'' 2 ''cdr'',
       RepTopic ''/odom'' ''nav_msgs/msg/Odometry'' 1 ''cdr'',
       RepTopic ''/scan'' ''sensor_msgs/msg/LaserScan'' 0 ''cdr'',
       ExtractedImu 0, ExtractedOdom 0], Inr (Some \<lparr>Imu = [], odom = []\<rparr>))"
proof -
  have x: "extraction (sample_env []) (sample_reader []) =
      ([ExtractedImu 0, ExtractedOdom 0], Inr \<lparr>Imu = [], odom = []\<rparr>)"
    by (simp add: extraction_def sample_reader_def)
  show ?thesis
    by (simp add: parse_ros2_bag_def sample_locate_bag reader_block_def sample_open
        sample_report x)
qed

text \<open>
  C4, as amended. A path that does not exist: the not-found line, and \<^verbatim>\<open>None\<close>.
  An existing file whose name ends in \<^verbatim>\<open>.db3\<close>, with \<^verbatim>\<open>os.path.dirname\<close> of the
  path a directory: the warning, and the bag directory is that parent (\<^verbatim>\<open>foo\<close> for
  \<^verbatim>\<open>foo/bar.db3\<close>). A directory whose entries hold no name ending in \<^verbatim>\<open>.db3\<close>:
  the no-data-file line, and \<^verbatim>\<open>None\<close>. A directory whose entries hold such a name:
  the bag directory is the path itself, and nothing is printed. A path that exists and
  is neither such a file nor a directory: the invalid-path line, and \<^verbatim>\<open>None\<close>.
  Both scripts behave so.
\<close>

theorem locate_bag_cases:
  "(\<not> os_path_exists e p \<longrightarrow>
      parse_ros2_bag e p = ([ErrNotExist p], Inr None) \<and>
      parse_ros2_bag_read e p = ([ErrNotExist p], Inr ())) \<and>
   (os_path_isfile e p \<and> endswith p ''.db3'' \<and> os_path_isdir e (os_path_dirname p) \<longrightarrow>
      locate_bag e p =
        ([WarnDb3 (os_path_dirname p)],
         Inr (Some (os_path_dirname p, OneFile (os_path_basename p))))) \<and>
   (os_path_isfile e ''foo/bar.db3'' \<and> os_path_isdir e ''foo'' \<longrightarrow>
      locate_bag e ''foo/bar.db3'' =
        ([WarnDb3 ''foo''], Inr (Some (''foo'', OneFile ''bar.db3'')))) \<and>
   (os_path_isdir e p \<and> listdir e p = Inr entries \<and>
    filter (\<lambda>f. endswith f ''.db3'') entries = [] \<longrightarrow>
      parse_ros2_bag e p = ([ErrNoDb3 p], Inr None) \<and>
      parse_ros2_bag_read e p = ([ErrNoDb3 p], Inr ())) \<and>
   (os_path_isdir e p \<and> listdir e p = Inr entries \<and>
    filter (\<lambda>f. endswith f ''.db3'') entries \<noteq> [] \<longrightarrow>
      locate_bag e p =
        ([], Inr (Some (p, FileList (filter (\<lambda>f. endswith f ''.db3'') entries))))) \<and>
   (os_path_exists e p \<and> \<not> (os_path_isfile e p \<and> endswith p ''.db3'') \<and>
    \<not> os_path_isdir e p \<longrightarrow>
      parse_ros2_bag e p = ([ErrInvalidPath p], Inr None) \<and>
      parse_ros2_bag_read e p = ([ErrInvalidPath p], Inr ()))"
proof -
  have c1: "parse_ros2_bag e p = ([ErrNotExist p], Inr None) \<and>
      parse_ros2_bag_read e p = ([ErrNotExist p], Inr ())" if "\<not> os_path_exists e p"
    by (rule parse_of_locate_None [OF locate_not_found [OF that]])
  have c2: "locate_bag e p =
        ([WarnDb3 (os_path_dirname p)],
         Inr (Some (os_path_dirname p, OneFile (os_path_basename p))))"
    if "os_path_isfile e p" "endswith p ''.db3''" "os_path_isdir e (os_path_dirname p)"
    using locate_db3_file [OF that(1,2)] that(3) by simp
  have c3: "locate_bag e ''foo/bar.db3'' =
        ([WarnDb3 ''foo''], Inr (Some (''foo'', OneFile ''bar.db3'')))"
    if "os_path_isfile e ''foo/bar.db3''" "os_path_isdir e ''foo''"
    using locate_db3_file [OF that(1) endswith_foo_bar] that(2)
    by (simp add: dirname_foo_bar basename_foo_bar)
  have c4: "parse_ros2_bag e p = ([ErrNoDb3 p], Inr None) \<and>
      parse_ros2_bag_read e p = ([ErrNoDb3 p], Inr ())"
    if "os_path_isdir e p" "listdir e p = Inr entries"
      "filter (\<lambda>f. endswith f ''.db3'') entries = []"
  proof -
    have "locate_bag e p = ([ErrNoDb3 p], Inr None)"
      using locate_directory [OF that(1,2)] that(3) by simp
    then show ?thesis by (rule parse_of_locate_None)
  qed
  have c5: "locate_bag e p =
        ([], Inr (Some (p, FileList (filter (\<lambda>f. endswith f ''.db3'') entries))))"
    if "os_path_isdir e p" "listdir e p = Inr entries"
      "filter (\<lambda>f. endswith f ''.db3'') entries \<noteq> []"
    using locate_directory [OF that(1,2)] that(3) by simp
  have c6: "parse_ros2_bag e p = ([ErrInvalidPath p], Inr None) \<and>
      parse_ros2_bag_read e p = ([ErrInvalidPath p], Inr ())"
    if "os_path_exists e p" "\<not> (os_path_isfile e p \<and> endswith p ''.db3'')"
      "\<not> os_path_isdir e p"
    by (rule parse_of_locate_None [OF locate_invalid [OF that]])
  from c1 c2 c3 c4 c5 c6 show ?thesis by blast
qed

theorem locate_bag_cases_witness:
  "parse_ros2_bag (sample_env []) ''missing'' = ([ErrNotExist ''missing''], Inr None) \<and>
   parse_ros2_bag_read (sample_env []) ''missing'' = ([ErrNotExist ''missing''], Inr ()) \<and>
   locate_bag (sample_env []) ''foo/bar.db3'' =
     ([WarnDb3 ''foo''], Inr (Some (''foo'', OneFile ''bar.db3''))) \<and>
   parse_ros2_bag (sample_env []) ''empty'' = ([ErrNoDb3 ''empty''], Inr None) \<and>
   parse_ros2_bag_read (sample_env []) ''empty'' = ([ErrNoDb3 ''empty''], Inr ()) \<and>
   locate_bag (sample_env []) ''bag'' = ([], Inr (Some (''bag'', FileList [''data.db3'']))) \<and>
   parse_ros2_bag (sample_env []) ''notes.txt'' = ([ErrInvalidPath ''notes.txt''], Inr None) \<and>
   parse_ros2_bag_read (sample_env []) ''notes.txt'' = ([ErrInvalidPath ''notes.txt''], Inr ())"
proof -
  have e1: "\<not> endswith ''notes.txt'' ''.db3''" by (simp add: endswith_def)
  have e2: "filter (\<lambda>f. endswith f ''.db3'') [''data.db3'', ''metadata.yaml''] = [''data.db3'']"
    by (simp add: endswith_def)
  have d: "os_path_dirname ''foo/bar.db3'' = ''foo''" by (rule dirname_foo_bar)
  have a: "parse_ros2_bag (sample_env []) ''missing'' = ([ErrNotExist ''missing''], Inr None) \<and>
      parse_ros2_bag_read (sample_env []) ''missing'' = ([ErrNotExist ''missing''], Inr ())"
    using locate_bag_cases [of "sample_env []" "''missing''" "[]"] sample_kind(9) [of "[]"]
    by blast
  have b: "locate_bag (sample_env []) ''foo/bar.db3'' =
     ([WarnDb3 ''foo''], Inr (Some (''foo'', OneFile ''bar.db3'')))"
    using locate_bag_cases [of "sample_env []" "''foo/bar.db3''" "[]"]
      sample_kind(2,4) [of "[]"]
    by blast
  have b': "locate_bag (sample_env []) ''foo/bar.db3'' =
     ([WarnDb3 (os_path_dirname ''foo/bar.db3'')],
      Inr (Some (os_path_dirname ''foo/bar.db3'', OneFile (os_path_basename ''foo/bar.db3''))))"
    using locate_bag_cases [of "sample_env []" "''foo/bar.db3''" "[]"]
      sample_kind(2,4) [of "[]"] endswith_foo_bar d
    by simp
  have c: "parse_ros2_bag (sample_env []) ''empty'' = ([ErrNoDb3 ''empty''], Inr None) \<and>
      parse_ros2_bag_read (sample_env []) ''empty'' = ([ErrNoDb3 ''empty''], Inr ())"
    using locate_bag_cases [of "sample_env []" "''empty''" "[]"]
      sample_kind(3) [of "[]"] sample_listdir(2) [of "[]"]
    by simp
  have f: "locate_bag (sample_env []) ''bag'' =
      ([], Inr (Some (''bag'', FileList [''data.db3''])))"
    using locate_bag_cases [of "sample_env []" "''bag''" "[''data.db3'', ''metadata.yaml'']"]
      sample_kind(1) [of "[]"] sample_listdir(1) [of "[]"] e2
    by simp
  have g: "parse_ros2_bag (sample_env []) ''notes.txt'' =
        ([ErrInvalidPath ''notes.txt''], Inr None) \<and>
      parse_ros2_bag_read (sample_env []) ''notes.txt'' =
        ([ErrInvalidPath ''notes.txt''], Inr ())"
    using locate_bag_cases [of "sample_env []" "''notes.txt''" "[]"]
      sample_kind(7,8) [of "[]"] e1
    by blast
  from a b b' c f g show ?thesis by blast
qed

text \<open>
  C4 as stated fails in its last case: the directory \<^verbatim>\<open>bag\<close> exists, is not a file,
  and has an entry whose name ends in \<^verbatim>\<open>.db3\<close>, so it is none of the three cases the
  claim names; it is not refused as an invalid path but taken as the bag directory and
  parsed.
\<close>

theorem directory_with_data_file_counterexample:
  "os_path_exists (sample_env []) ''bag'' \<and>
   \<not> os_path_isfile (sample_env []) ''bag'' \<and>
   os_path_isdir (sample_env []) ''bag'' \<and>
   listdir (sample_env []) ''bag'' = Inr [''data.db3'', ''metadata.yaml''] \<and>
   locate_bag (sample_env []) ''bag'' = ([], Inr (Some (''bag'', FileList [''data.db3'']))) \<and>
   parse_ros2_bag (sample_env []) ''bag'' =
     ([ParsingFrom ''bag'', RepFiles (FileList [''data.db3'']), RepBagSize 2048,
       RepStorageId ''sqlite3'', RepDuration 2500000000,
       RepStart ''local time'' 1700000000000000000,
       RepEnd ''local time'' 1700000002500000000,
       RepMessages 3, RepTopicInformation,
       RepTopic ''/Imu'' ''sensor_msgs/msg/Imu'' 2 ''cdr'',
       RepTopic ''/odom'' ''nav_msgs/msg/Odometry'' 1 ''cdr'',
       RepTopic ''/scan'' ''sensor_msgs/msg/LaserScan'' 0 ''cdr'',
       ExtractedImu 0, ExtractedOdom 0], Inr (Some \<lparr>Imu = [], odom = []\<rparr>))"
  using sample_kind(1) [of "[]"] sample_listdir(1) [of "[]"] sample_locate_bag [of "[]"]
    sample_parse_bag_empty isdir_exists [OF sample_kind(1) [of "[]"]]
    isdir_not_isfile [OF sample_kind(1) [of "[]"]]
  by blast




text \<open>
  C9. For every metadata, when the summary is printed, the end time it reports is the
  integer \<^verbatim>\<open>starting_time.nanoseconds_since_epoch + duration.nanoseconds\<close>, the sum
  of Python integers, with the rendering \<^verbatim>\<open>datetime.fromtimestamp\<close> gives for that
  sum; this is the only end-time line either script prints.
\<close>

theorem end_time_is_start_plus_duration:
  assumes "locate_bag e p = (out, Inr (Some (d, fs)))"
    and "open_reader e d = Inr rd"
    and "snd (report e d fs rd) = Inr ()"
  shows "\<exists>dt. fromtimestamp e (starting_time_nanoseconds_since_epoch (reader_metadata rd) +
                 duration_nanoseconds (reader_metadata rd)) = Inr dt \<and>
           filter is_end_line (fst (parse_ros2_bag e p)) =
             [RepEnd dt (starting_time_nanoseconds_since_epoch (reader_metadata rd) +
                duration_nanoseconds (reader_metadata rd))] \<and>
           filter is_end_line (fst (parse_ros2_bag_read e p)) =
             [RepEnd dt (starting_time_nanoseconds_since_epoch (reader_metadata rd) +
                duration_nanoseconds (reader_metadata rd))]"
  using report_end_line [OF assms(3)] parse_end_lines [OF assms] by simp

theorem end_time_is_start_plus_duration_witness:
  "filter is_end_line (fst (parse_ros2_bag (sample_env []) ''bag'')) =
     [RepEnd ''local time'' (1700000000000000000 + 2500000000)] \<and>
   filter is_end_line (fst (parse_ros2_bag_read (sample_env []) ''bag'')) =
     [RepEnd ''local time'' (1700000000000000000 + 2500000000)]"
proof -
  have l: "locate_bag (sample_env []) ''bag'' =
      ([], Inr (Some (''bag'', FileList [''data.db3''])))"
    by (rule sample_locate_bag)
  have o: "open_reader (sample_env []) ''bag'' = Inr (sample_reader [])"
    by (rule sample_open)
  have r: "snd (report (sample_env []) ''bag'' (FileList [''data.db3''])
      (sample_reader [])) = Inr ()"
    by (simp add: sample_report)
  have f: "fromtimestamp (sample_env []) n = Inr ''local time''" for n
    by (simp add: sample_env_def)
  have m: "starting_time_nanoseconds_since_epoch (reader_metadata (sample_reader [])) =
        1700000000000000000"
    "duration_nanoseconds (reader_metadata (sample_reader [])) = 2500000000"
    by (simp_all add: sample_reader_def sample_metadata_def)
  from end_time_is_start_plus_duration [OF l o r]
  show ?thesis unfolding f m by auto
qed

text \<open>
  C10. For an existing file whose name ends in \<^verbatim>\<open>.db3\<close> and holds no slash,
  \<^verbatim>\<open>os.path.dirname\<close> is the empty string, which is not a directory, and
  \<^verbatim>\<open>parse_ros2_bag\<close> prints the warning and then
  \<^verbatim>\<open>is not a valid ROS2 bag directory\<close>, both with the empty name, and returns
  \<^verbatim>\<open>None\<close>: the directory that holds the file is not used.
\<close>

theorem bare_db3_file_name_rejected:
  assumes "os_path_isfile e p" and "endswith p ''.db3''" and "CHR ''/'' \<notin> set p"
  shows "os_path_dirname p = [] \<and> \<not> os_path_isdir e (os_path_dirname p) \<and>
         parse_ros2_bag e p = ([WarnDb3 [], ErrNotBagDir []], Inr None)"
  using assms by (rule parse_bare_name)

theorem bare_db3_file_name_rejected_witness:
  "os_path_isfile (sample_env []) ''bar.db3'' \<and> endswith ''bar.db3'' ''.db3'' \<and>
   os_path_dirname ''bar.db3'' = [] \<and>
   \<not> os_path_isdir (sample_env []) (os_path_dirname ''bar.db3'') \<and>
   parse_ros2_bag (sample_env []) ''bar.db3'' = ([WarnDb3 [], ErrNotBagDir []], Inr None)"
proof -
  have f: "os_path_isfile (sample_env []) ''bar.db3''" by (rule sample_kind(5))
  have s: "endswith ''bar.db3'' ''.db3''" by (simp add: endswith_def)
  have n: "CHR ''/'' \<notin> set ''bar.db3''" by simp
  from bare_db3_file_name_rejected [OF f s n] f s show ?thesis by blast
qed

end
